theory Spec2Isabelle
  imports Main
begin

section \<open>JavaScript values as the feedback route handles them\<close>

text \<open>
  The feedback route (the second module of \<^verbatim>\<open>src/app/page.tsx\<close>, source lines 52-271)
  reads an untrusted JSON payload, coerces its fields to strings, and drives three
  calls against an external spreadsheet service. Strings are \<^typ>\<open>string\<close>; one
  \<^typ>\<open>char\<close> stands for one UTF-16 code unit below 256.

  An exception is a value of \<open>error\<close>; a function that may throw returns
  \<open>error + 'a\<close>. The texts of the errors raised by the JavaScript engine itself are
  the ones of V8, which runs the route.
\<close>

datatype error = TypeError string | RangeError string | Error string

fun message :: "error \<Rightarrow> string" where
  "message (TypeError s) = s"
| "message (RangeError s) = s"
| "message (Error s) = s"

text \<open>
  A parsed JSON value. A number is held by its JavaScript rendering
  (\<^verbatim>\<open>Number.prototype.toString\<close>), so the two zeros are the number rendered \<open>''0''\<close>.
  \<^verbatim>\<open>undefined\<close> is \<open>None\<close> of \<open>json option\<close>.
\<close>

datatype json =
    JNull
  | JBool bool
  | JNum string
  | JStr string
  | JArr "json list"
  | JObj "(string \<times> json) list"

fun truthy :: "json \<Rightarrow> bool" where
  "truthy JNull = False"
| "truthy (JBool b) = b"
| "truthy (JNum r) = (r \<noteq> ''0'')"
| "truthy (JStr s) = (s \<noteq> [])"
| "truthy (JArr xs) = True"
| "truthy (JObj kvs) = True"

text \<open>\<^verbatim>\<open>a || b\<close> on possibly undefined values.\<close>

fun js_or :: "json option \<Rightarrow> json option \<Rightarrow> json option" where
  "js_or None b = b"
| "js_or (Some a) b = (if truthy a then Some a else b)"

text \<open>\<^verbatim>\<open>(v || "")\<close>.\<close>

fun or_empty :: "json option \<Rightarrow> json" where
  "or_empty None = JStr []"
| "or_empty (Some a) = (if truthy a then a else JStr [])"

text \<open>
  \<^verbatim>\<open>payload.name\<close> for the property names the route reads, none of which is a
  property of a built-in prototype. Reading a property of \<^verbatim>\<open>null\<close> throws, and the
  message has the name of the property between single quotes; a primitive or an array
  has no such property; in an object parsed from JSON the last of several equal keys
  wins.
\<close>

definition quoted :: "string \<Rightarrow> string" where
  "quoted name = CHR 0x27 # name @ [CHR 0x27]"

fun get_prop :: "json \<Rightarrow> string \<Rightarrow> error + json option" where
  "get_prop JNull name =
     Inl (TypeError (''Cannot read properties of null (reading '' @ quoted name @ '')''))"
| "get_prop (JObj kvs) name = Inr (map_of (rev kvs) name)"
| "get_prop v name = Inr None"

text \<open>
  The conversion of a value to a string where the language asks for one, as
  \<^verbatim>\<open>Array.prototype.join\<close> does for the elements of an array. An array joins the
  renderings of its elements with commas, \<^verbatim>\<open>null\<close> rendered empty. An object parsed from
  JSON that has a key \<open>toString\<close> of its own holds a value there that cannot be called,
  and so has no primitive value; any other object renders as \<open>[object Object]\<close>.
\<close>

fun join_comma :: "string list \<Rightarrow> string" where
  "join_comma [] = []"
| "join_comma [s] = s"
| "join_comma (s # t # ss) = s @ '','' @ join_comma (t # ss)"

fun sequence :: "(error + 'a) list \<Rightarrow> error + 'a list" where
  "sequence [] = Inr []"
| "sequence (Inl e # rs) = Inl e"
| "sequence (Inr x # rs) = (case sequence rs of Inl e \<Rightarrow> Inl e | Inr xs \<Rightarrow> Inr (x # xs))"

fun ToString :: "json \<Rightarrow> error + string" where
  "ToString JNull = Inr ''null''"
| "ToString (JBool b) = Inr (if b then ''true'' else ''false'')"
| "ToString (JNum r) = Inr r"
| "ToString (JStr s) = Inr s"
| "ToString (JArr xs) =
     (case sequence (map (\<lambda>x. if x = JNull then Inr [] else ToString x) xs) of
        Inl e \<Rightarrow> Inl e
      | Inr ss \<Rightarrow> Inr (join_comma ss))"
| "ToString (JObj kvs) =
     (if map_of (rev kvs) ''toString'' \<noteq> None
      then Inl (TypeError ''Cannot convert object to primitive value'')
      else Inr ''[object Object]'')"

text \<open>
  The method call \<^verbatim>\<open>v.toString()\<close>, where \<open>site\<close> is the text of the expression \<open>v\<close> in
  the source, which the message of the engine quotes: \<^verbatim>\<open>null\<close> has no method, and an
  object with a key \<open>toString\<close> of its own has there something that is no function.
\<close>

fun toString :: "string \<Rightarrow> json \<Rightarrow> error + string" where
  "toString site JNull =
     Inl (TypeError (''Cannot read properties of null (reading '' @ quoted ''toString'' @ '')''))"
| "toString site (JObj kvs) =
     (if map_of (rev kvs) ''toString'' \<noteq> None
      then Inl (TypeError (site @ ''.toString is not a function''))
      else ToString (JObj kvs))"
| "toString site v = ToString v"

text \<open>
  \<^verbatim>\<open>String.prototype.trim\<close>: white space and line terminators are removed at both ends
  (tab, line feed, vertical tab, form feed, carriage return, space, no-break space).
\<close>

definition is_ws :: "char \<Rightarrow> bool" where
  "is_ws c = (of_char c \<in> {9, 10, 11, 12, 13, 32, 160 :: nat})"

definition trim :: "string \<Rightarrow> string" where
  "trim s = rev (dropWhile is_ws (rev (dropWhile is_ws s)))"

text \<open>
  The built-ins of the runtime that the route calls and that are not code of the
  repository: \<^verbatim>\<open>JSON.parse\<close> (\<open>None\<close> when it throws), \<^verbatim>\<open>JSON.stringify\<close>, the parser of
  \<^verbatim>\<open>new Date(string)\<close> (milliseconds since the epoch, \<open>None\<close> for an invalid date) and
  \<^verbatim>\<open>Date.prototype.toISOString\<close> on a valid date.
\<close>

record runtime =
  JSON_parse :: "string \<Rightarrow> json option"
  JSON_stringify :: "json \<Rightarrow> string"
  Date_parse :: "string \<Rightarrow> int option"
  toISOString :: "int \<Rightarrow> string"

section \<open>Module state and the world outside the process\<close>

text \<open>
  The variables of the module: \<open>TAB_NAME\<close>, \<open>credentials\<close> and \<open>ENV_SPREADSHEET_ID\<close>
  are set once when the module is loaded, \<open>cachedSpreadsheetId\<close> is the memoized
  identifier, \<open>sheetsClientPromise\<close> tells whether the client handle has been built
  (\<^verbatim>\<open>null\<close> is \<open>False\<close>). \<open>console\<close> is what loading the module printed.
\<close>

record module =
  TAB_NAME :: string
  credentials :: json
  ENV_SPREADSHEET_ID :: string
  cachedSpreadsheetId :: string
  sheetsClientPromise :: bool
  console :: "string list"

record process_env =
  GOOGLE_SHEETS_TAB_NAME :: "string option"
  GOOGLE_SHEETS_CREDENTIALS :: "string option"
  GOOGLE_SHEETS_SPREADSHEET_ID :: "string option"

text \<open>\<^verbatim>\<open>process.env.NAME || dflt\<close>: an unset or empty variable gives the default.\<close>

fun env_or :: "string option \<Rightarrow> string \<Rightarrow> string" where
  "env_or None dflt = dflt"
| "env_or (Some s) dflt = (if s = [] then dflt else s)"

definition parse_warning :: string where
  "parse_warning = ''Failed to parse GOOGLE_SHEETS_CREDENTIALS:''"

definition unconfigured_warning :: string where
  "unconfigured_warning =
     ''Google Sheets feedback credentials are not configured (GOOGLE_SHEETS_CREDENTIALS missing or invalid).''"

text \<open>
  Lines 57-78, run once when the module is loaded. The \<^verbatim>\<open>try\<close> around \<^verbatim>\<open>JSON.parse\<close>
  catches its exception and prints a warning, so loading itself never throws.
\<close>

definition parse_credentials :: "runtime \<Rightarrow> string option \<Rightarrow> json \<times> string list" where
  "parse_credentials rt credentialsJson =
     (case credentialsJson of
        None \<Rightarrow> (JNull, [])
      | Some s \<Rightarrow>
          if s = [] then (JNull, [])
          else (case JSON_parse rt s of
                  None \<Rightarrow> (JNull, [parse_warning])
                | Some c \<Rightarrow> (c, [])))"

definition load_module :: "runtime \<Rightarrow> process_env \<Rightarrow> module" where
  "load_module rt penv =
     (let (creds, warned) = parse_credentials rt (GOOGLE_SHEETS_CREDENTIALS penv);
          env_id = env_or (GOOGLE_SHEETS_SPREADSHEET_ID penv) []
      in \<lparr> TAB_NAME = env_or (GOOGLE_SHEETS_TAB_NAME penv) ''Feedback'',
           credentials = creds,
           ENV_SPREADSHEET_ID = env_id,
           cachedSpreadsheetId = env_id,
           sheetsClientPromise = False,
           console = warned @ (if \<not> truthy creds then [unconfigured_warning] else []) \<rparr>)"

text \<open>
  The world outside the process: the spreadsheet service, the cache file
  \<^verbatim>\<open>.feedback-sheet-id.cache\<close> and the record of every call that left the process.
  A spreadsheet is the list of its tabs; an identifier is accessible when the service
  maps it to a spreadsheet. \<open>create_reply\<close> is the \<^verbatim>\<open>data.spreadsheetId\<close> that the
  next \<^verbatim>\<open>spreadsheets.create\<close> answers with, \<open>broken\<close> gives the calls that the
  environment rejects, with the error thrown. The world changes through the calls of
  the process only.
\<close>

record tab =
  title :: string
  frozenRowCount :: nat
  rows :: "string list list"

datatype call =
    SpreadsheetsGet string
  | ReadFile
  | SpreadsheetsCreate string
  | WriteFile string
  | ValuesUpdate string string "string list"
  | AddSheet string string
  | ValuesAppend string string "string list"

record world =
  service :: "string \<Rightarrow> tab list option"
  cache_file :: "string option"
  create_reply :: "string option"
  broken :: "call \<Rightarrow> error option"
  trace :: "call list"

definition called :: "call \<Rightarrow> world \<Rightarrow> world" where
  "called c w = w\<lparr>trace := trace w @ [c]\<rparr>"

definition has_tab :: "string \<Rightarrow> tab list \<Rightarrow> bool" where
  "has_tab name tabs = list_ex (\<lambda>t. title t = name) tabs"

fun on_tab :: "string \<Rightarrow> (tab \<Rightarrow> tab) \<Rightarrow> tab list \<Rightarrow> tab list" where
  "on_tab name f [] = []"
| "on_tab name f (t # ts) = (if title t = name then f t # ts else t # on_tab name f ts)"

text \<open>\<^verbatim>\<open>sheets.spreadsheets.get\<close>: the tabs of an accessible spreadsheet, or an error.\<close>

definition spreadsheets_get :: "string \<Rightarrow> world \<Rightarrow> (error + tab list) \<times> world" where
  "spreadsheets_get sid w =
     (case service w sid of
        None \<Rightarrow> (Inl (Error ''Requested entity was not found.''), called (SpreadsheetsGet sid) w)
      | Some tabs \<Rightarrow> (Inr tabs, called (SpreadsheetsGet sid) w))"

text \<open>\<^verbatim>\<open>fs.readFile\<close> of the cache file: a missing file throws.\<close>

definition fs_readFile :: "world \<Rightarrow> (error + string) \<times> world" where
  "fs_readFile w =
     (case cache_file w of
        None \<Rightarrow> (Inl (Error ''ENOENT: no such file or directory''), called ReadFile w)
      | Some stored \<Rightarrow> (Inr stored, called ReadFile w))"

text \<open>\<^verbatim>\<open>fs.writeFile\<close> of the cache file.\<close>

definition fs_writeFile :: "string \<Rightarrow> world \<Rightarrow> (error + unit) \<times> world" where
  "fs_writeFile s w =
     (case broken w (WriteFile s) of
        Some e \<Rightarrow> (Inl e, called (WriteFile s) w)
      | None \<Rightarrow> (Inr (), called (WriteFile s) (w\<lparr>cache_file := Some s\<rparr>)))"

text \<open>
  \<^verbatim>\<open>sheets.spreadsheets.create\<close> with one tab whose first row is frozen: the answer is
  \<^verbatim>\<open>created.data.spreadsheetId\<close>, and a spreadsheet that the service names exists from
  then on.
\<close>

definition spreadsheets_create :: "string \<Rightarrow> world \<Rightarrow> (error + string option) \<times> world" where
  "spreadsheets_create name w =
     (case broken w (SpreadsheetsCreate name) of
        Some e \<Rightarrow> (Inl e, called (SpreadsheetsCreate name) w)
      | None \<Rightarrow>
          (case create_reply w of
             None \<Rightarrow> (Inr None, called (SpreadsheetsCreate name) w)
           | Some sid \<Rightarrow>
               (Inr (Some sid),
                called (SpreadsheetsCreate name)
                  (w\<lparr>service := (service w)
                        (sid \<mapsto> [\<lparr>title = name, frozenRowCount = 1, rows = []\<rparr>])\<rparr>))))"

text \<open>\<^verbatim>\<open>sheets.spreadsheets.values.update\<close> on the range \<open>A1:H1\<close> of a tab.\<close>

definition write_first_row :: "string list \<Rightarrow> tab \<Rightarrow> tab" where
  "write_first_row r t = t\<lparr>rows := (case rows t of [] \<Rightarrow> [r] | old # rest \<Rightarrow> r # rest)\<rparr>"

definition values_update ::
    "string \<Rightarrow> string \<Rightarrow> string list \<Rightarrow> world \<Rightarrow> (error + unit) \<times> world" where
  "values_update sid name r w =
     (case broken w (ValuesUpdate sid name r) of
        Some e \<Rightarrow> (Inl e, called (ValuesUpdate sid name r) w)
      | None \<Rightarrow>
          (case service w sid of
             None \<Rightarrow> (Inl (Error ''Requested entity was not found.''),
                       called (ValuesUpdate sid name r) w)
           | Some tabs \<Rightarrow>
               if has_tab name tabs
               then (Inr (),
                     called (ValuesUpdate sid name r)
                       (w\<lparr>service := (service w)(sid \<mapsto> on_tab name (write_first_row r) tabs)\<rparr>))
               else (Inl (Error ''Unable to parse range''),
                     called (ValuesUpdate sid name r) w)))"

text \<open>\<^verbatim>\<open>sheets.spreadsheets.batchUpdate\<close> with one \<^verbatim>\<open>addSheet\<close> request.\<close>

definition batchUpdate_addSheet :: "string \<Rightarrow> string \<Rightarrow> world \<Rightarrow> (error + unit) \<times> world" where
  "batchUpdate_addSheet sid name w =
     (case broken w (AddSheet sid name) of
        Some e \<Rightarrow> (Inl e, called (AddSheet sid name) w)
      | None \<Rightarrow>
          (case service w sid of
             None \<Rightarrow> (Inl (Error ''Requested entity was not found.''),
                       called (AddSheet sid name) w)
           | Some tabs \<Rightarrow>
               (Inr (),
                called (AddSheet sid name)
                  (w\<lparr>service := (service w)
                        (sid \<mapsto> tabs @ [\<lparr>title = name, frozenRowCount = 1, rows = []\<rparr>])\<rparr>))))"

text \<open>
  \<^verbatim>\<open>sheets.spreadsheets.values.append\<close> on the range \<open>A:H\<close> of a tab: the row goes
  after the rows of the tab, held as the strings that were sent (how the service reads
  a \<^verbatim>\<open>USER_ENTERED\<close> cell is its own matter).
\<close>

definition append_row :: "string list \<Rightarrow> tab \<Rightarrow> tab" where
  "append_row r t = t\<lparr>rows := rows t @ [r]\<rparr>"

definition values_append ::
    "string \<Rightarrow> string \<Rightarrow> string list \<Rightarrow> world \<Rightarrow> (error + unit) \<times> world" where
  "values_append sid name r w =
     (case broken w (ValuesAppend sid name r) of
        Some e \<Rightarrow> (Inl e, called (ValuesAppend sid name r) w)
      | None \<Rightarrow>
          (case service w sid of
             None \<Rightarrow> (Inl (Error ''Requested entity was not found.''),
                       called (ValuesAppend sid name r) w)
           | Some tabs \<Rightarrow>
               if has_tab name tabs
               then (Inr (),
                     called (ValuesAppend sid name r)
                       (w\<lparr>service := (service w)(sid \<mapsto> on_tab name (append_row r) tabs)\<rparr>))
               else (Inl (Error ''Unable to parse range''),
                     called (ValuesAppend sid name r) w)))"

section \<open>The resource locator and the schema provisioner\<close>

definition missing_credentials :: string where
  "missing_credentials =
     ''Google Sheets feedback integration is missing required credentials (GOOGLE_SHEETS_CREDENTIALS).''"

text \<open>
  \<^verbatim>\<open>getSheetsClient\<close> (lines 80-99): the handle is built once; building it contacts
  nothing, and without credentials it throws.
\<close>

definition getSheetsClient :: "module \<Rightarrow> (error + unit) \<times> module" where
  "getSheetsClient m =
     (if sheetsClientPromise m then (Inr (), m)
      else if \<not> truthy (credentials m) then (Inl (Error missing_credentials), m)
      else (Inr (), m\<lparr>sheetsClientPromise := True\<rparr>))"

definition HEADER :: "string list" where
  "HEADER = [''timestamp'', ''feedbackType'', ''userComment'', ''lastQuestion'',
             ''lastResponse'', ''fullConversation'', ''sessionId'', ''Type'']"

definition create_failed :: string where
  "create_failed = ''Failed to auto-create fallback spreadsheet.''"

text \<open>
  \<^verbatim>\<open>ensureSpreadsheetId\<close> (lines 101-183), one definition for each tier; a tier that
  does not return falls through to the next, as the source does.

  Lines 141-182, the creation of a new spreadsheet.
\<close>

definition ensureSpreadsheetId_create ::
    "module \<Rightarrow> world \<Rightarrow> (error + string) \<times> module \<times> world" where
  "ensureSpreadsheetId_create m w =
     (case spreadsheets_create (TAB_NAME m) w of
        (Inl e, w1) \<Rightarrow> (Inl e, m, w1)
      | (Inr created, w1) \<Rightarrow>
          (case created of
             None \<Rightarrow> (Inl (Error create_failed), m, w1)
           | Some spreadsheetId \<Rightarrow>
               if spreadsheetId = [] then (Inl (Error create_failed), m, w1)
               else
                 (let m1 = m\<lparr>cachedSpreadsheetId := spreadsheetId\<rparr> in
                  case fs_writeFile spreadsheetId w1 of
                    (Inl e, w2) \<Rightarrow> (Inl e, m1, w2)
                  | (Inr u, w2) \<Rightarrow>
                      (case values_update spreadsheetId (TAB_NAME m) HEADER w2 of
                         (Inl e, w3) \<Rightarrow> (Inl e, m1, w3)
                       | (Inr u', w3) \<Rightarrow> (Inr spreadsheetId, m1, w3)))))"

text \<open>Lines 125-139, the cache file; every exception in them is swallowed.\<close>

definition ensureSpreadsheetId_file ::
    "module \<Rightarrow> world \<Rightarrow> (error + string) \<times> module \<times> world" where
  "ensureSpreadsheetId_file m w =
     (case fs_readFile w of
        (Inl e, w1) \<Rightarrow> ensureSpreadsheetId_create m w1
      | (Inr stored, w1) \<Rightarrow>
          (let parsed = trim stored in
           if parsed \<noteq> [] then
             (case spreadsheets_get parsed w1 of
                (Inr d, w2) \<Rightarrow> (Inr parsed, m\<lparr>cachedSpreadsheetId := parsed\<rparr>, w2)
              | (Inl e, w2) \<Rightarrow> ensureSpreadsheetId_create m w2)
           else ensureSpreadsheetId_create m w1))"

text \<open>Lines 113-123, the configured identifier.\<close>

definition ensureSpreadsheetId_env ::
    "module \<Rightarrow> world \<Rightarrow> (error + string) \<times> module \<times> world" where
  "ensureSpreadsheetId_env m w =
     (if ENV_SPREADSHEET_ID m \<noteq> [] then
        (case spreadsheets_get (ENV_SPREADSHEET_ID m) w of
           (Inr d, w1) \<Rightarrow>
             (Inr (ENV_SPREADSHEET_ID m), m\<lparr>cachedSpreadsheetId := ENV_SPREADSHEET_ID m\<rparr>, w1)
         | (Inl e, w1) \<Rightarrow> ensureSpreadsheetId_file m w1)
      else ensureSpreadsheetId_file m w)"

text \<open>Lines 101-111, the memoized identifier.\<close>

definition ensureSpreadsheetId ::
    "module \<Rightarrow> world \<Rightarrow> (error + string) \<times> module \<times> world" where
  "ensureSpreadsheetId m w =
     (if cachedSpreadsheetId m \<noteq> [] then
        (case spreadsheets_get (cachedSpreadsheetId m) w of
           (Inr d, w1) \<Rightarrow> (Inr (cachedSpreadsheetId m), m, w1)
         | (Inl e, w1) \<Rightarrow> ensureSpreadsheetId_env (m\<lparr>cachedSpreadsheetId := []\<rparr>) w1)
      else ensureSpreadsheetId_env m w)"

text \<open>\<^verbatim>\<open>ensureSheetTab\<close> (lines 185-223).\<close>

definition ensureSheetTab :: "module \<Rightarrow> string \<Rightarrow> world \<Rightarrow> (error + unit) \<times> world" where
  "ensureSheetTab m spreadsheetId w =
     (case spreadsheets_get spreadsheetId w of
        (Inl e, w1) \<Rightarrow> (Inl e, w1)
      | (Inr details, w1) \<Rightarrow>
          if has_tab (TAB_NAME m) details then (Inr (), w1)
          else
            (case batchUpdate_addSheet spreadsheetId (TAB_NAME m) w1 of
               (Inl e, w2) \<Rightarrow> (Inl e, w2)
             | (Inr u, w2) \<Rightarrow> values_update spreadsheetId (TAB_NAME m) HEADER w2))"

section \<open>The feedback endpoint\<close>

record request =
  raw_body :: string
  now :: int

datatype reply = Success | Failure string

record response =
  status :: nat
  body :: reply

record fields =
  feedbackType :: string
  userComment :: string
  lastQuestion :: string
  lastResponse :: string
  sessionId :: string
  typeLabel :: string
  providedTimestamp :: string
  fullConversation :: "json list"

definition then_do :: "error + 'a \<Rightarrow> ('a \<Rightarrow> error + 'b) \<Rightarrow> error + 'b" where
  "then_do r f = (case r of Inl e \<Rightarrow> Inl e | Inr x \<Rightarrow> f x)"

text \<open>\<^verbatim>\<open>(payload.name || "").toString()\<close>.\<close>

definition coerce :: "json \<Rightarrow> string \<Rightarrow> error + string" where
  \<open>coerce payload name =
     then_do (get_prop payload name)
       (\<lambda>v. toString (''(payload.'' @ name @ '' || "")'') (or_empty v))\<close>

text \<open>
  Lines 229-236, in the order of the source: the first coercion that throws ends the
  evaluation.
\<close>

definition read_fields :: "json \<Rightarrow> error + fields" where
  \<open>read_fields payload =
     then_do (coerce payload ''feedbackType'') (\<lambda>ft.
     then_do (coerce payload ''userComment'') (\<lambda>uc.
     then_do (coerce payload ''lastQuestion'') (\<lambda>lq.
     then_do (coerce payload ''lastResponse'') (\<lambda>lr.
     then_do (coerce payload ''sessionId'') (\<lambda>si.
     then_do (get_prop payload ''type'') (\<lambda>ty.
     then_do (get_prop payload ''admissionsType'') (\<lambda>aty.
     then_do (toString ''(payload.type || payload.admissionsType || "")''
                (or_empty (js_or ty aty))) (\<lambda>tl.
     then_do (coerce payload ''timestamp'') (\<lambda>ts.
     then_do (get_prop payload ''fullConversation'') (\<lambda>fc.
       Inr \<lparr> feedbackType = trim ft, userComment = uc, lastQuestion = lq,
             lastResponse = lr, sessionId = si, typeLabel = trim tl,
             providedTimestamp = trim ts,
             fullConversation = (case fc of Some (JArr xs) \<Rightarrow> xs | _ \<Rightarrow> []) \<rparr>))))))))))\<close>

definition invalid_feedbackType :: string where
  \<open>invalid_feedbackType = ''feedbackType must be "positive" or "negative".''\<close>

definition try_again :: string where
  "try_again = ''Failed to submit feedback. Please try again in a moment.''"

text \<open>The \<^verbatim>\<open>catch\<close> of lines 260-268.\<close>

definition failed :: "error \<Rightarrow> response" where
  "failed err =
     \<lparr> status = 500,
       body = Failure (if message err \<noteq> [] then message err else try_again) \<rparr>"

text \<open>Line 242: a date that does not parse makes \<^verbatim>\<open>toISOString\<close> throw.\<close>

definition normalize_timestamp :: "runtime \<Rightarrow> int \<Rightarrow> string \<Rightarrow> error + string" where
  "normalize_timestamp rt submitted provided =
     (if provided \<noteq> [] then
        (case Date_parse rt provided of
           None \<Rightarrow> Inl (RangeError ''Invalid time value'')
         | Some t \<Rightarrow> Inr (toISOString rt t))
      else Inr (toISOString rt submitted))"

definition row_of :: "runtime \<Rightarrow> string \<Rightarrow> fields \<Rightarrow> string list" where
  "row_of rt timestamp f =
     [timestamp, feedbackType f, userComment f, lastQuestion f, lastResponse f,
      JSON_stringify rt (JArr (fullConversation f)), sessionId f, typeLabel f]"

text \<open>Line 227: a body that does not parse is taken as the empty object.\<close>

definition req_json :: "runtime \<Rightarrow> request \<Rightarrow> json" where
  "req_json rt req = (case JSON_parse rt (raw_body req) of None \<Rightarrow> JObj [] | Some p \<Rightarrow> p)"

text \<open>
  Lines 244-259 of \<^verbatim>\<open>POST\<close>: the record with its normalized timestamp is serialized
  and handed to the locator, the provisioner and the append writer, one after the other.
\<close>

definition POST_append ::
    "runtime \<Rightarrow> fields \<Rightarrow> string \<Rightarrow> module \<Rightarrow> world \<Rightarrow> response \<times> module \<times> world" where
  "POST_append rt f timestamp m w =
     (case getSheetsClient m of
        (Inl e, m1) \<Rightarrow> (failed e, m1, w)
      | (Inr sheets, m1) \<Rightarrow>
          (case ensureSpreadsheetId m1 w of
             (Inl e, m2, w2) \<Rightarrow> (failed e, m2, w2)
           | (Inr spreadsheetId, m2, w2) \<Rightarrow>
               (case ensureSheetTab m2 spreadsheetId w2 of
                  (Inl e, w3) \<Rightarrow> (failed e, m2, w3)
                | (Inr u, w3) \<Rightarrow>
                    (case values_append spreadsheetId (TAB_NAME m2)
                            (row_of rt timestamp f) w3 of
                       (Inl e, w4) \<Rightarrow> (failed e, m2, w4)
                     | (Inr u', w4) \<Rightarrow>
                         (\<lparr> status = 200, body = Success \<rparr>, m2, w4)))))"

text \<open>\<^verbatim>\<open>POST\<close> (lines 225-269).\<close>

definition POST :: "runtime \<Rightarrow> request \<Rightarrow> module \<Rightarrow> world \<Rightarrow> response \<times> module \<times> world" where
  "POST rt req m w =
     (case read_fields (req_json rt req) of
        Inl e \<Rightarrow> (failed e, m, w)
      | Inr f \<Rightarrow>
          if feedbackType f = [] \<or> feedbackType f \<notin> set [''positive'', ''negative'']
          then (\<lparr> status = 400, body = Failure invalid_feedbackType \<rparr>, m, w)
          else
            (case normalize_timestamp rt (now req) (providedTimestamp f) of
               Inl e \<Rightarrow> (failed e, m, w)
             | Inr timestamp \<Rightarrow> POST_append rt f timestamp m w))"

text \<open>The requests of a process, one after the other.\<close>

fun serve :: "runtime \<Rightarrow> request list \<Rightarrow> module \<Rightarrow> world \<Rightarrow> module \<times> world" where
  "serve rt [] m w = (m, w)"
| "serve rt (req # reqs) m w =
     (case POST rt req m w of (resp, m1, w1) \<Rightarrow> serve rt reqs m1 w1)"

section \<open>Vocabulary of the properties\<close>

text \<open>The calls that left the process between two states of the world.\<close>

definition new_calls :: "world \<Rightarrow> world \<Rightarrow> call list" where
  "new_calls w w' = drop (length (trace w)) (trace w')"

text \<open>The world after the calls \<open>cs\<close>, nothing else changed.\<close>

definition seen :: "call list \<Rightarrow> world \<Rightarrow> world" where
  "seen cs w = w\<lparr>trace := trace w @ cs\<rparr>"

text \<open>A candidate that is there and passes the accessibility check.\<close>

definition accessible :: "world \<Rightarrow> string \<Rightarrow> bool" where
  "accessible w sid = (sid \<noteq> [] \<and> service w sid \<noteq> None)"

text \<open>The accessibility check of a candidate: an empty candidate is not checked.\<close>

definition probe :: "string \<Rightarrow> call list" where
  "probe sid = (if sid = [] then [] else [SpreadsheetsGet sid])"

text \<open>The candidate of the cache file, empty when the file is missing.\<close>

definition file_id :: "world \<Rightarrow> string" where
  "file_id w = (case cache_file w of None \<Rightarrow> [] | Some stored \<Rightarrow> trim stored)"

text \<open>
  The credentials are absent or malformed: the variable is unset or empty, or
  \<^verbatim>\<open>JSON.parse\<close> throws on it, or what it parses to is falsy.
\<close>

definition credentials_missing :: "runtime \<Rightarrow> process_env \<Rightarrow> bool" where
  "credentials_missing rt penv =
     (case GOOGLE_SHEETS_CREDENTIALS penv of
        None \<Rightarrow> True
      | Some s \<Rightarrow> s = [] \<or> (case JSON_parse rt s of None \<Rightarrow> True | Some c \<Rightarrow> \<not> truthy c))"

text \<open>
  A submission that gets as far as using the store: its fields coerce to strings, its
  \<open>feedbackType\<close> is valid and its timestamp normalizes.
\<close>

definition reaches_store :: "runtime \<Rightarrow> request \<Rightarrow> bool" where
  "reaches_store rt req =
     (case read_fields (req_json rt req) of
        Inl e \<Rightarrow> False
      | Inr f \<Rightarrow>
          feedbackType f \<in> {''positive'', ''negative''} \<and>
          (case normalize_timestamp rt (now req) (providedTimestamp f) of
             Inl e \<Rightarrow> False
           | Inr timestamp \<Rightarrow> True))"

fun is_append :: "call \<Rightarrow> bool" where
  "is_append (ValuesAppend sid name r) = True"
| "is_append c = False"

text \<open>The rows of the tab of a name, and how many tabs of a spreadsheet have that name.\<close>

fun tab_rows :: "string \<Rightarrow> tab list \<Rightarrow> string list list" where
  "tab_rows name [] = []"
| "tab_rows name (t # ts) = (if title t = name then rows t else tab_rows name ts)"

definition tab_count :: "string \<Rightarrow> string \<Rightarrow> world \<Rightarrow> nat" where
  "tab_count name sid w =
     (case service w sid of
        None \<Rightarrow> 0
      | Some tabs \<Rightarrow> length (filter (\<lambda>t. title t = name) tabs))"

text \<open>
  The persisted schema in the words of the specification: the value of a record that
  belongs under a column of the header.
\<close>

definition column_value :: "runtime \<Rightarrow> string \<Rightarrow> fields \<Rightarrow> string \<Rightarrow> string" where
  "column_value rt timestamp f name =
     (if name = ''timestamp'' then timestamp
      else if name = ''feedbackType'' then feedbackType f
      else if name = ''userComment'' then userComment f
      else if name = ''lastQuestion'' then lastQuestion f
      else if name = ''lastResponse'' then lastResponse f
      else if name = ''fullConversation'' then JSON_stringify rt (JArr (fullConversation f))
      else if name = ''sessionId'' then sessionId f
      else if name = ''Type'' then typeLabel f
      else [])"

section \<open>Example states\<close>

text \<open>
  A runtime that knows a handful of request bodies and two dates (the string \<open>0\<close> read
  as the year 2000, as V8 reads it), a configured module with nothing memoized, and
  worlds for it.
\<close>

definition example_runtime :: runtime where
  \<open>example_runtime =
     \<lparr> JSON_parse = (\<lambda>s.
         if s = ''null'' then Some JNull
         else if s = ''{}'' then Some (JObj [])
         else if s = ''{"feedbackType":" positive"}''
           then Some (JObj [(''feedbackType'', JStr '' positive'')])
         else if s = ''{"feedbackType":"maybe"}''
           then Some (JObj [(''feedbackType'', JStr ''maybe'')])
         else if s = ''{"feedbackType":"negative","userComment":"too vague","sessionId":"s1"}''
           then Some (JObj [(''feedbackType'', JStr ''negative''),
                            (''userComment'', JStr ''too vague''),
                            (''sessionId'', JStr ''s1'')])
         else if s = ''{"feedbackType":"positive","timestamp":0}''
           then Some (JObj [(''feedbackType'', JStr ''positive''), (''timestamp'', JNum ''0'')])
         else if s = ''{"feedbackType":"positive","timestamp":" 1970-01-01T00:00:00.000Z"}''
           then Some (JObj [(''feedbackType'', JStr ''positive''),
                            (''timestamp'', JStr '' 1970-01-01T00:00:00.000Z'')])
         else if s = ''{"feedbackType":"positive","timestamp":"soon"}''
           then Some (JObj [(''feedbackType'', JStr ''positive''), (''timestamp'', JStr ''soon'')])
         else None),
       JSON_stringify = (\<lambda>j. if j = JArr [] then ''[]'' else ''[{}]''),
       Date_parse = (\<lambda>s. if s = ''1970-01-01T00:00:00.000Z'' then Some 0
                         else if s = ''0'' then Some 946684800000
                         else None),
       toISOString = (\<lambda>t. if t = 0 then ''1970-01-01T00:00:00.000Z''
                           else if t = 946684800000 then ''2000-01-01T00:00:00.000Z''
                           else ''2026-11-02T00:00:00.000Z'') \<rparr>\<close>

definition example_module :: module where
  "example_module =
     \<lparr> TAB_NAME = ''Feedback'',
       credentials = JObj [(''client_email'', JStr ''svc@example.com'')],
       ENV_SPREADSHEET_ID = [],
       cachedSpreadsheetId = [],
       sheetsClientPromise = False,
       console = [] \<rparr>"

text \<open>No spreadsheet, no cache file; the service will name a new spreadsheet \<open>sheet-1\<close>.\<close>

definition fresh_world :: world where
  "fresh_world =
     \<lparr> service = Map.empty, cache_file = None, create_reply = Some ''sheet-1'',
       broken = (\<lambda>c. None), trace = [] \<rparr>"

text \<open>The service answers a creation without an identifier.\<close>

definition no_id_world :: world where
  "no_id_world = fresh_world\<lparr>create_reply := None\<rparr>"

text \<open>A spreadsheet \<open>sheet-1\<close> without any tab.\<close>

definition bare_world :: world where
  "bare_world = fresh_world\<lparr>service := [''sheet-1'' \<mapsto> []]\<rparr>"

text \<open>A process environment whose credentials do not parse.\<close>

definition no_credentials_env :: process_env where
  "no_credentials_env =
     \<lparr> GOOGLE_SHEETS_TAB_NAME = None, GOOGLE_SHEETS_CREDENTIALS = Some ''{not json'',
       GOOGLE_SHEETS_SPREADSHEET_ID = None \<rparr>"

text \<open>
  The submission of the end-to-end scenario, the row it is stored as, a submission
  whose \<open>feedbackType\<close> has a leading space, and one whose \<open>feedbackType\<close> is \<open>maybe\<close>.
\<close>

definition feedback_body :: string where
  \<open>feedback_body = ''{"feedbackType":"negative","userComment":"too vague","sessionId":"s1"}''\<close>

definition example_request :: request where
  "example_request = \<lparr> raw_body = feedback_body, now = 1 \<rparr>"

definition example_row :: "string list" where
  "example_row = [''2026-11-02T00:00:00.000Z'', ''negative'', ''too vague'', [], [], ''[]'',
                  ''s1'', []]"

definition spaced_request :: request where
  \<open>spaced_request = \<lparr> raw_body = ''{"feedbackType":" positive"}'', now = 1 \<rparr>\<close>

definition maybe_request :: request where
  \<open>maybe_request = \<lparr> raw_body = ''{"feedbackType":"maybe"}'', now = 1 \<rparr>\<close>





text \<open>
  A process that memoized \<open>old-sheet\<close>, which is gone from the service while the cache
  file still names it; the configured \<open>env-sheet\<close> is accessible.
\<close>

definition stale_module :: module where
  "stale_module =
     example_module\<lparr> ENV_SPREADSHEET_ID := ''env-sheet'', cachedSpreadsheetId := ''old-sheet'' \<rparr>"

text \<open>The same memo in a process without a configured identifier.\<close>

definition memo_only_module :: module where
  "memo_only_module = example_module\<lparr> cachedSpreadsheetId := ''old-sheet'' \<rparr>"

definition stale_world :: world where
  "stale_world =
     \<lparr> service = [''env-sheet'' \<mapsto> [\<lparr>title = ''Feedback'', frozenRowCount = 1, rows = [HEADER]\<rparr>]],
       cache_file = Some ''old-sheet'', create_reply = Some ''sheet-2'',
       broken = (\<lambda>c. None), trace = [] \<rparr>"

section \<open>Properties\<close>

lemmas prims = spreadsheets_get_def fs_readFile_def fs_writeFile_def spreadsheets_create_def
  values_update_def batchUpdate_addSheet_def values_append_def called_def

lemmas splits = prod.splits sum.splits option.splits if_splits

lemmas run_defs = ensureSpreadsheetId_def ensureSpreadsheetId_env_def
  ensureSpreadsheetId_file_def ensureSpreadsheetId_create_def ensureSheetTab_def
  getSheetsClient_def prims has_tab_def write_first_row_def append_row_def HEADER_def
  example_module_def fresh_world_def no_id_world_def bare_world_def new_calls_def

lemmas post_defs = POST_def POST_append_def req_json_def read_fields_def coerce_def then_do_def trim_def
  is_ws_def normalize_timestamp_def row_of_def failed_def example_runtime_def feedback_body_def
  quoted_def

lemmas example_defs = example_request_def example_row_def spaced_request_def maybe_request_def
  stale_module_def stale_world_def


subsection \<open>The tiers of the resource locator\<close>

lemma seen_seen [simp]: "seen cs (seen bs w) = seen (bs @ cs) w"
  by (simp add: seen_def)

lemma seen_fields [simp]:
  "service (seen cs w) = service w"
  "cache_file (seen cs w) = cache_file w"
  "create_reply (seen cs w) = create_reply w"
  "broken (seen cs w) = broken w"
  "trace (seen cs w) = trace w @ cs"
  by (simp_all add: seen_def)

lemma accessible_seen [simp]: "accessible (seen cs w) sid = accessible w sid"
  by (simp add: accessible_def)

lemma file_id_seen [simp]: "file_id (seen cs w) = file_id w"
  by (simp add: file_id_def)

lemma clear_empty: "cachedSpreadsheetId m = [] \<Longrightarrow> m\<lparr>cachedSpreadsheetId := []\<rparr> = m"
  by (cases m) simp

lemma file_tier:
  "ensureSpreadsheetId_file m w =
     (if accessible w (file_id w)
      then (Inr (file_id w), m\<lparr>cachedSpreadsheetId := file_id w\<rparr>,
            seen (ReadFile # probe (file_id w)) w)
      else ensureSpreadsheetId_create m (seen (ReadFile # probe (file_id w)) w))"
  unfolding ensureSpreadsheetId_file_def spreadsheets_get_def fs_readFile_def called_def
    accessible_def file_id_def probe_def seen_def
  by (auto split: splits simp: Let_def)

lemma env_tier:
  "ensureSpreadsheetId_env m w =
     (if accessible w (ENV_SPREADSHEET_ID m)
      then (Inr (ENV_SPREADSHEET_ID m), m\<lparr>cachedSpreadsheetId := ENV_SPREADSHEET_ID m\<rparr>,
            seen (probe (ENV_SPREADSHEET_ID m)) w)
      else ensureSpreadsheetId_file m (seen (probe (ENV_SPREADSHEET_ID m)) w))"
  unfolding ensureSpreadsheetId_env_def spreadsheets_get_def called_def
    accessible_def probe_def
  by (auto split: splits simp: seen_def)

lemma memo_tier:
  "ensureSpreadsheetId m w =
     (if accessible w (cachedSpreadsheetId m)
      then (Inr (cachedSpreadsheetId m), m, seen (probe (cachedSpreadsheetId m)) w)
      else ensureSpreadsheetId_env (m\<lparr>cachedSpreadsheetId := []\<rparr>)
             (seen (probe (cachedSpreadsheetId m)) w))"
  unfolding ensureSpreadsheetId_def spreadsheets_get_def called_def
    accessible_def probe_def
  by (auto split: splits simp: seen_def clear_empty)

text \<open>
  The resolution in closed form: the first accessible candidate among the memoized,
  the configured and the file-cached identifier is returned after the checks of the
  candidates before it, and creation runs when none is accessible.
\<close>

lemma ensureSpreadsheetId_tiers:
  "ensureSpreadsheetId m w =
     (if accessible w (cachedSpreadsheetId m)
      then (Inr (cachedSpreadsheetId m), m, seen (probe (cachedSpreadsheetId m)) w)
      else if accessible w (ENV_SPREADSHEET_ID m)
      then (Inr (ENV_SPREADSHEET_ID m), m\<lparr>cachedSpreadsheetId := ENV_SPREADSHEET_ID m\<rparr>,
            seen (probe (cachedSpreadsheetId m) @ probe (ENV_SPREADSHEET_ID m)) w)
      else if accessible w (file_id w)
      then (Inr (file_id w), m\<lparr>cachedSpreadsheetId := file_id w\<rparr>,
            seen (probe (cachedSpreadsheetId m) @ probe (ENV_SPREADSHEET_ID m)
                  @ ReadFile # probe (file_id w)) w)
      else ensureSpreadsheetId_create (m\<lparr>cachedSpreadsheetId := []\<rparr>)
             (seen (probe (cachedSpreadsheetId m) @ probe (ENV_SPREADSHEET_ID m)
                    @ ReadFile # probe (file_id w)) w))"
  by (simp add: memo_tier env_tier file_tier)

lemma create_no_id:
  assumes "broken w (SpreadsheetsCreate (TAB_NAME m)) = None"
    and "create_reply w = None \<or> create_reply w = Some []"
  shows "\<exists>w'. ensureSpreadsheetId_create m w = (Inl (Error create_failed), m, w') \<and>
              trace w' = trace w @ [SpreadsheetsCreate (TAB_NAME m)] \<and>
              cache_file w' = cache_file w"
  using assms unfolding ensureSpreadsheetId_create_def spreadsheets_create_def called_def
  by (auto split: splits)

lemma create_calls:
  "ensureSpreadsheetId_create m w = (r, m', w') \<Longrightarrow>
   \<exists>cs. trace w' = trace w @ SpreadsheetsCreate (TAB_NAME m) # cs"
  unfolding ensureSpreadsheetId_create_def prims
  by (auto split: splits simp: Let_def)

text \<open>
  What creation leaves behind: nothing, or a spreadsheet named by the service, memoized,
  and written to the cache file unless the write failed.
\<close>

lemma create_effects:
  "ensureSpreadsheetId_create m w = (r, m', w') \<Longrightarrow>
   (m' = m \<and> cache_file w' = cache_file w \<and> (\<exists>e. r = Inl e)) \<or>
   (\<exists>sid. sid \<noteq> [] \<and> create_reply w = Some sid \<and> service w' sid \<noteq> None \<and>
          m' = m\<lparr>cachedSpreadsheetId := sid\<rparr> \<and>
          (cache_file w' = Some sid \<or> cache_file w' = cache_file w \<and> (\<exists>e. r = Inl e)) \<and>
          (r = Inr sid \<or> (\<exists>e. r = Inl e)))"
  unfolding ensureSpreadsheetId_create_def prims
  by (auto split: splits simp: Let_def)

text \<open>
  The calls of creation: the create call first; a write of the cache file only with the
  identifier that the service answered, which is memoized by then; and a creation that
  returns has written the file.
\<close>

lemma create_written:
  "ensureSpreadsheetId_create m w = (r, m', w') \<Longrightarrow>
   \<exists>cs. trace w' = trace w @ SpreadsheetsCreate (TAB_NAME m) # cs \<and>
        (\<forall>s. WriteFile s \<in> set cs \<longrightarrow>
              create_reply w = Some s \<and> cachedSpreadsheetId m' = s) \<and>
        (\<forall>sid. r = Inr sid \<longrightarrow> cache_file w' = Some sid \<and> WriteFile sid \<in> set cs)"
  unfolding ensureSpreadsheetId_create_def prims
  by (auto split: splits simp: Let_def)

lemma probe_calls [simp]:
  "SpreadsheetsCreate n \<notin> set (probe a)" "WriteFile s \<notin> set (probe a)"
  by (simp_all add: probe_def)

text \<open>
  A resolution that finds an accessible candidate returns it after checks and at most a
  read of the cache file: it neither creates nor writes.
\<close>

lemma resolved_without_creation:
  assumes "accessible w (cachedSpreadsheetId m) \<or> accessible w (ENV_SPREADSHEET_ID m)
             \<or> accessible w (file_id w)"
    and run: "ensureSpreadsheetId m w = (r, m', w')"
  shows "\<exists>cs sid. w' = seen cs w \<and> SpreadsheetsCreate n \<notin> set cs \<and>
                  (\<forall>s. WriteFile s \<notin> set cs) \<and>
                  r = Inr sid \<and> accessible w sid \<and> cachedSpreadsheetId m' = sid"
proof (cases "accessible w (cachedSpreadsheetId m)")
  case True
  with run show ?thesis
    by (intro exI [of _ "probe (cachedSpreadsheetId m)"] exI [of _ "cachedSpreadsheetId m"])
       (auto simp: ensureSpreadsheetId_tiers)
next
  case memo: False
  show ?thesis
  proof (cases "accessible w (ENV_SPREADSHEET_ID m)")
    case True
    with run memo show ?thesis
      by (intro exI [of _ "probe (cachedSpreadsheetId m) @ probe (ENV_SPREADSHEET_ID m)"]
            exI [of _ "ENV_SPREADSHEET_ID m"])
         (auto simp: ensureSpreadsheetId_tiers)
  next
    case False
    with run memo assms(1) show ?thesis
      by (intro exI [of _ "probe (cachedSpreadsheetId m) @ probe (ENV_SPREADSHEET_ID m)
                            @ ReadFile # probe (file_id w)"]
            exI [of _ "file_id w"])
         (auto simp: ensureSpreadsheetId_tiers)
  qed
qed

text \<open>A resolution that returns has memoized what it returns, and that is accessible.\<close>

lemma ensureSpreadsheetId_Inr:
  assumes "ensureSpreadsheetId m w = (Inr sid, m1, w1)"
  shows "cachedSpreadsheetId m1 = sid \<and> sid \<noteq> [] \<and> service w1 sid \<noteq> None"
proof (cases "accessible w (cachedSpreadsheetId m) \<or> accessible w (ENV_SPREADSHEET_ID m)
                \<or> accessible w (file_id w)")
  case True
  with assms show ?thesis
    by (auto simp: ensureSpreadsheetId_tiers accessible_def split: if_splits)
next
  case False
  with assms obtain m0 w0 where "ensureSpreadsheetId_create m0 w0 = (Inr sid, m1, w1)"
    by (auto simp: ensureSpreadsheetId_tiers)
  from create_effects [OF this] show ?thesis by auto
qed

lemma memo_hit:
  "cachedSpreadsheetId m \<noteq> [] \<Longrightarrow> service w (cachedSpreadsheetId m) \<noteq> None \<Longrightarrow>
   ensureSpreadsheetId m w
     = (Inr (cachedSpreadsheetId m), m, called (SpreadsheetsGet (cachedSpreadsheetId m)) w)"
  by (simp add: ensureSpreadsheetId_tiers accessible_def probe_def seen_def called_def)

text \<open>
  C4. Resolution is idempotent within a process: when a resolution has returned an
  identifier, the next resolution in the world it left (and in any world where that
  identifier is still accessible) returns the same identifier, leaves the module as it
  is, and its only call is the accessibility check of that identifier, so no creation.
\<close>

theorem resolution_idempotent:
  assumes "ensureSpreadsheetId m w = (Inr sid, m1, w1)"
  shows "ensureSpreadsheetId m1 w1 = (Inr sid, m1, called (SpreadsheetsGet sid) w1) \<and>
         (\<forall>w2. service w2 sid \<noteq> None \<longrightarrow>
               ensureSpreadsheetId m1 w2 = (Inr sid, m1, called (SpreadsheetsGet sid) w2))"
proof -
  from assms have memo: "cachedSpreadsheetId m1 = sid" and ne: "sid \<noteq> []"
    and acc: "service w1 sid \<noteq> None"
    by (auto dest: ensureSpreadsheetId_Inr)
  have "ensureSpreadsheetId m1 w2 = (Inr sid, m1, called (SpreadsheetsGet sid) w2)"
    if "service w2 sid \<noteq> None" for w2
    using memo_hit [of m1 w2] memo ne that by simp
  with acc show ?thesis by blast
qed

theorem resolution_idempotent_witness:
  "fst (ensureSpreadsheetId example_module fresh_world) = Inr ''sheet-1'' \<and>
   ensureSpreadsheetId (fst (snd (ensureSpreadsheetId example_module fresh_world)))
       (snd (snd (ensureSpreadsheetId example_module fresh_world)))
     = (Inr ''sheet-1'', fst (snd (ensureSpreadsheetId example_module fresh_world)),
        called (SpreadsheetsGet ''sheet-1'')
          (snd (snd (ensureSpreadsheetId example_module fresh_world))))"
proof -
  have run: "fst (ensureSpreadsheetId example_module fresh_world) = Inr ''sheet-1''"
    by (simp add: run_defs)
  then have "ensureSpreadsheetId example_module fresh_world
      = (Inr ''sheet-1'', fst (snd (ensureSpreadsheetId example_module fresh_world)),
         snd (snd (ensureSpreadsheetId example_module fresh_world)))"
    by (metis prod.collapse)
  from resolution_idempotent [OF this] run show ?thesis by simp
qed

text \<open>
  C9. When a resolution reaches the creation tier and the service answers the creation
  without an identifier (none, or an empty one), the resolution fails with the
  provisioning error, the creation is its last call, no identifier is memoized (the
  memo is empty, and the module is untouched when nothing was memoized before), and
  the cache file is neither written nor changed.
\<close>

theorem creation_without_id_fails:
  assumes run: "ensureSpreadsheetId m w = (r, m', w')"
    and reached: "SpreadsheetsCreate (TAB_NAME m) \<in> set (new_calls w w')"
    and returned: "broken w (SpreadsheetsCreate (TAB_NAME m)) = None"
    and no_id: "create_reply w = None \<or> create_reply w = Some []"
  shows "r = Inl (Error create_failed) \<and>
         last (new_calls w w') = SpreadsheetsCreate (TAB_NAME m) \<and>
         cachedSpreadsheetId m' = [] \<and>
         (cachedSpreadsheetId m = [] \<longrightarrow> m' = m) \<and>
         cache_file w' = cache_file w \<and>
         (\<forall>s. WriteFile s \<notin> set (new_calls w w'))"
proof -
  let ?pre = "probe (cachedSpreadsheetId m) @ probe (ENV_SPREADSHEET_ID m)
                @ ReadFile # probe (file_id w)"
  let ?m0 = "m\<lparr>cachedSpreadsheetId := []\<rparr>"
  have tier: "ensureSpreadsheetId m w = ensureSpreadsheetId_create ?m0 (seen ?pre w)"
  proof (rule ccontr)
    assume "\<not> ?thesis"
    then have "SpreadsheetsCreate (TAB_NAME m) \<notin> set (new_calls w w')"
      using run
      by (auto simp: ensureSpreadsheetId_tiers new_calls_def probe_def split: if_splits)
    with reached show False by simp
  qed
  obtain w1 where c: "ensureSpreadsheetId_create ?m0 (seen ?pre w)
                        = (Inl (Error create_failed), ?m0, w1)"
    and t: "trace w1 = trace (seen ?pre w) @ [SpreadsheetsCreate (TAB_NAME ?m0)]"
    and f: "cache_file w1 = cache_file (seen ?pre w)"
    using create_no_id [of "seen ?pre w" ?m0] returned no_id by auto
  from run tier c have r: "r = Inl (Error create_failed)" and m': "m' = ?m0" and w': "w' = w1"
    by simp_all
  have calls: "new_calls w w' = ?pre @ [SpreadsheetsCreate (TAB_NAME m)]"
    using t w' by (simp add: new_calls_def)
  show ?thesis
    using r m' w' f calls by (auto simp: probe_def clear_empty)
qed

theorem creation_without_id_fails_witness:
  "SpreadsheetsCreate (TAB_NAME example_module)
     \<in> set (new_calls no_id_world (snd (snd (ensureSpreadsheetId example_module no_id_world)))) \<and>
   broken no_id_world (SpreadsheetsCreate (TAB_NAME example_module)) = None \<and>
   create_reply no_id_world = None \<and>
   fst (ensureSpreadsheetId example_module no_id_world) = Inl (Error create_failed) \<and>
   cache_file (snd (snd (ensureSpreadsheetId example_module no_id_world))) = None"
proof -
  have reached: "SpreadsheetsCreate (TAB_NAME example_module)
     \<in> set (new_calls no_id_world (snd (snd (ensureSpreadsheetId example_module no_id_world))))"
    by (simp add: run_defs)
  have returned: "broken no_id_world (SpreadsheetsCreate (TAB_NAME example_module)) = None"
    by (simp add: run_defs)
  have no_id: "create_reply no_id_world = None \<or> create_reply no_id_world = Some []"
    by (simp add: run_defs)
  have run: "ensureSpreadsheetId example_module no_id_world
      = (fst (ensureSpreadsheetId example_module no_id_world),
         fst (snd (ensureSpreadsheetId example_module no_id_world)),
         snd (snd (ensureSpreadsheetId example_module no_id_world)))"
    by simp
  from creation_without_id_fails [OF run reached returned no_id] reached returned
  show ?thesis by (simp add: no_id_world_def fresh_world_def)
qed

text \<open>
  C2. When the memoized identifier is there but fails its accessibility check, the
  resolution first checks it, then tries the configured identifier, then the cache
  file, then creation, in this order and each only when the ones before gave nothing:
  the configured identifier is returned and memoized when it is accessible; otherwise
  the file-cached one when it is accessible; otherwise the next call is the creation.
  The stale identifier is neither returned nor memoized afterwards, short of the
  service naming the newly created spreadsheet with it.
\<close>

theorem stale_memo_falls_through:
  assumes stale: "cachedSpreadsheetId m = stale" "stale \<noteq> []" "service w stale = None"
    and run: "ensureSpreadsheetId m w = (r, m', w')"
  shows "(if accessible w (ENV_SPREADSHEET_ID m) then
            r = Inr (ENV_SPREADSHEET_ID m) \<and>
            m' = m\<lparr>cachedSpreadsheetId := ENV_SPREADSHEET_ID m\<rparr> \<and>
            w' = seen [SpreadsheetsGet stale, SpreadsheetsGet (ENV_SPREADSHEET_ID m)] w
          else if accessible w (file_id w) then
            r = Inr (file_id w) \<and>
            m' = m\<lparr>cachedSpreadsheetId := file_id w\<rparr> \<and>
            w' = seen (SpreadsheetsGet stale # probe (ENV_SPREADSHEET_ID m)
                       @ [ReadFile, SpreadsheetsGet (file_id w)]) w
          else
            (\<exists>cs. new_calls w w'
                    = SpreadsheetsGet stale # probe (ENV_SPREADSHEET_ID m)
                      @ ReadFile # probe (file_id w)
                      @ SpreadsheetsCreate (TAB_NAME m) # cs) \<and>
            (\<forall>sid. r = Inr sid \<longrightarrow> create_reply w = Some sid) \<and>
            (cachedSpreadsheetId m' = [] \<or> create_reply w = Some (cachedSpreadsheetId m'))) \<and>
         (create_reply w \<noteq> Some stale \<longrightarrow> r \<noteq> Inr stale \<and> cachedSpreadsheetId m' \<noteq> stale)"
proof -
  let ?pre = "probe (cachedSpreadsheetId m) @ probe (ENV_SPREADSHEET_ID m)
                @ ReadFile # probe (file_id w)"
  let ?m0 = "m\<lparr>cachedSpreadsheetId := []\<rparr>"
  from stale have memo: "\<not> accessible w (cachedSpreadsheetId m)"
    and p: "probe (cachedSpreadsheetId m) = [SpreadsheetsGet stale]"
    by (simp_all add: accessible_def probe_def)
  show ?thesis
  proof (cases "accessible w (ENV_SPREADSHEET_ID m) \<or> accessible w (file_id w)")
    case True
    with run memo p stale show ?thesis
      by (auto simp: ensureSpreadsheetId_tiers accessible_def probe_def split: if_splits)
  next
    case False
    with run memo have c: "ensureSpreadsheetId_create ?m0 (seen ?pre w) = (r, m', w')"
      by (simp add: ensureSpreadsheetId_tiers)
    from create_calls [OF c] obtain cs
      where "trace w' = trace w @ ?pre @ SpreadsheetsCreate (TAB_NAME m) # cs"
      by auto
    then have calls: "new_calls w w' = SpreadsheetsGet stale # probe (ENV_SPREADSHEET_ID m)
                      @ ReadFile # probe (file_id w) @ SpreadsheetsCreate (TAB_NAME m) # cs"
      using p by (simp add: new_calls_def)
    from create_effects [OF c]
    have eff: "(\<forall>sid. r = Inr sid \<longrightarrow> create_reply w = Some sid) \<and>
               (cachedSpreadsheetId m' = [] \<or> create_reply w = Some (cachedSpreadsheetId m'))"
      by auto
    with False calls stale show ?thesis by auto
  qed
qed

theorem stale_memo_falls_through_witness:
  "cachedSpreadsheetId stale_module = ''old-sheet'' \<and> ''old-sheet'' \<noteq> [] \<and>
   service stale_world ''old-sheet'' = None \<and>
   accessible stale_world (ENV_SPREADSHEET_ID stale_module) \<and>
   create_reply stale_world \<noteq> Some ''old-sheet'' \<and>
   fst (ensureSpreadsheetId stale_module stale_world) = Inr ''env-sheet'' \<and>
   snd (snd (ensureSpreadsheetId stale_module stale_world))
     = seen [SpreadsheetsGet ''old-sheet'', SpreadsheetsGet ''env-sheet''] stale_world \<and>
   cachedSpreadsheetId (fst (snd (ensureSpreadsheetId stale_module stale_world))) \<noteq> ''old-sheet'' \<and>
   cachedSpreadsheetId memo_only_module = ''old-sheet'' \<and>
   \<not> accessible stale_world (ENV_SPREADSHEET_ID memo_only_module) \<and>
   \<not> accessible stale_world (file_id stale_world) \<and>
   fst (ensureSpreadsheetId memo_only_module stale_world) = Inr ''sheet-2'' \<and>
   (\<exists>cs. new_calls stale_world (snd (snd (ensureSpreadsheetId memo_only_module stale_world)))
          = SpreadsheetsGet ''old-sheet'' # ReadFile # SpreadsheetsGet ''old-sheet''
            # SpreadsheetsCreate ''Feedback'' # cs)"
proof -
  have run: "ensureSpreadsheetId stale_module stale_world
      = (fst (ensureSpreadsheetId stale_module stale_world),
         fst (snd (ensureSpreadsheetId stale_module stale_world)),
         snd (snd (ensureSpreadsheetId stale_module stale_world)))"
    by simp
  have stale: "cachedSpreadsheetId stale_module = ''old-sheet''" "''old-sheet'' \<noteq> []"
    "service stale_world ''old-sheet'' = None"
    by (simp_all add: example_defs example_module_def)
  have env: "accessible stale_world (ENV_SPREADSHEET_ID stale_module)"
    "ENV_SPREADSHEET_ID stale_module = ''env-sheet''"
    "create_reply stale_world \<noteq> Some ''old-sheet''"
    by (simp_all add: accessible_def example_defs example_module_def)
  have first: "fst (ensureSpreadsheetId stale_module stale_world) = Inr ''env-sheet'' \<and>
      snd (snd (ensureSpreadsheetId stale_module stale_world))
        = seen [SpreadsheetsGet ''old-sheet'', SpreadsheetsGet ''env-sheet''] stale_world \<and>
      cachedSpreadsheetId (fst (snd (ensureSpreadsheetId stale_module stale_world))) \<noteq> ''old-sheet''"
    using stale_memo_falls_through [OF stale run] stale env by simp
  have run2: "ensureSpreadsheetId memo_only_module stale_world
      = (fst (ensureSpreadsheetId memo_only_module stale_world),
         fst (snd (ensureSpreadsheetId memo_only_module stale_world)),
         snd (snd (ensureSpreadsheetId memo_only_module stale_world)))"
    by simp
  have stale2: "cachedSpreadsheetId memo_only_module = ''old-sheet''"
    by (simp add: memo_only_module_def)
  have none: "ENV_SPREADSHEET_ID memo_only_module = []"
    "TAB_NAME memo_only_module = ''Feedback''"
    "file_id stale_world = ''old-sheet''"
    "\<not> accessible stale_world (ENV_SPREADSHEET_ID memo_only_module)"
    "\<not> accessible stale_world (file_id stale_world)"
    by (simp_all add: memo_only_module_def example_module_def accessible_def
        file_id_def example_defs trim_def is_ws_def)
  have created: "fst (ensureSpreadsheetId memo_only_module stale_world) = Inr ''sheet-2''"
    by (simp add: run_defs example_defs memo_only_module_def trim_def is_ws_def Let_def)
  have second: "\<exists>cs. new_calls stale_world
                   (snd (snd (ensureSpreadsheetId memo_only_module stale_world)))
          = SpreadsheetsGet ''old-sheet'' # ReadFile # SpreadsheetsGet ''old-sheet''
            # SpreadsheetsCreate ''Feedback'' # cs"
    using stale_memo_falls_through [OF stale2 stale(2,3) run2] none
    by (simp add: probe_def)
  from first second stale env stale2 none created show ?thesis by simp
qed

text \<open>
  C1, as the code has it. An identifier that is not accessible is neither returned by
  a resolution nor left in the in-memory memo (short of the service naming the newly
  created spreadsheet with it). The cache file is not evicted: a resolution that makes
  no creation call leaves it as it was; a resolution that returns after a creation call
  has written the new identifier to it, which is the memoized one; and the file is
  written with nothing but the identifier that the service answered a creation with.
\<close>

theorem failed_candidate_not_kept:
  assumes run: "ensureSpreadsheetId m w = (r, m', w')"
  shows "(\<forall>c. c \<noteq> [] \<and> service w c = None \<and> create_reply w \<noteq> Some c \<longrightarrow>
              r \<noteq> Inr c \<and> cachedSpreadsheetId m' \<noteq> c) \<and>
         (SpreadsheetsCreate (TAB_NAME m) \<notin> set (new_calls w w') \<longrightarrow>
            cache_file w' = cache_file w) \<and>
         (\<forall>sid. SpreadsheetsCreate (TAB_NAME m) \<in> set (new_calls w w') \<and> r = Inr sid \<longrightarrow>
            create_reply w = Some sid \<and> cachedSpreadsheetId m' = sid \<and>
            cache_file w' = Some sid \<and> WriteFile sid \<in> set (new_calls w w')) \<and>
         (\<forall>s. WriteFile s \<in> set (new_calls w w') \<longrightarrow>
            create_reply w = Some s \<and> cachedSpreadsheetId m' = s \<and>
            SpreadsheetsCreate (TAB_NAME m) \<in> set (new_calls w w'))"
proof (cases "accessible w (cachedSpreadsheetId m) \<or> accessible w (ENV_SPREADSHEET_ID m)
                \<or> accessible w (file_id w)")
  case True
  from resolved_without_creation [OF True run, of "TAB_NAME m"] obtain cs sid
    where w': "w' = seen cs w" and nc: "SpreadsheetsCreate (TAB_NAME m) \<notin> set cs"
      and nw: "\<forall>s. WriteFile s \<notin> set cs"
      and r: "r = Inr sid" and acc: "accessible w sid" and memo: "cachedSpreadsheetId m' = sid"
    by blast
  have calls: "new_calls w w' = cs"
    using w' by (simp add: new_calls_def)
  have "cache_file w' = cache_file w"
    using w' by simp
  moreover have "\<forall>c. c \<noteq> [] \<and> service w c = None \<longrightarrow> r \<noteq> Inr c \<and> cachedSpreadsheetId m' \<noteq> c"
    using r acc memo by (auto simp: accessible_def)
  ultimately show ?thesis
    unfolding calls using nc nw by blast
next
  case False
  let ?pre = "probe (cachedSpreadsheetId m) @ probe (ENV_SPREADSHEET_ID m)
                @ ReadFile # probe (file_id w)"
  let ?m0 = "m\<lparr>cachedSpreadsheetId := []\<rparr>"
  from False run
  have c: "ensureSpreadsheetId_create ?m0 (seen ?pre w) = (r, m', w')"
    by (simp add: ensureSpreadsheetId_tiers)
  from create_written [OF c] obtain cs
    where t: "trace w' = trace w @ ?pre @ SpreadsheetsCreate (TAB_NAME m) # cs"
      and wr: "\<forall>s. WriteFile s \<in> set cs \<longrightarrow> create_reply w = Some s \<and> cachedSpreadsheetId m' = s"
      and ret: "\<forall>sid. r = Inr sid \<longrightarrow> cache_file w' = Some sid \<and> WriteFile sid \<in> set cs"
    by auto
  have calls: "new_calls w w' = ?pre @ SpreadsheetsCreate (TAB_NAME m) # cs"
    using t by (simp add: new_calls_def)
  have mem: "SpreadsheetsCreate (TAB_NAME m) \<in> set (new_calls w w')"
    and wmem: "\<And>s. WriteFile s \<in> set (new_calls w w') \<longleftrightarrow> WriteFile s \<in> set cs"
    unfolding calls by simp_all
  from create_effects [OF c]
  have eff: "\<forall>c. c \<noteq> [] \<and> service w c = None \<and> create_reply w \<noteq> Some c \<longrightarrow>
              r \<noteq> Inr c \<and> cachedSpreadsheetId m' \<noteq> c"
    and ret2: "\<forall>sid. r = Inr sid \<longrightarrow> create_reply w = Some sid \<and> cachedSpreadsheetId m' = sid"
    by auto
  show ?thesis
    using eff ret ret2 wr mem wmem by blast
qed

theorem failed_candidate_not_kept_witness:
  "''old-sheet'' \<noteq> [] \<and> service stale_world ''old-sheet'' = None \<and>
   create_reply stale_world \<noteq> Some ''old-sheet'' \<and>
   SpreadsheetsCreate (TAB_NAME memo_only_module)
     \<in> set (new_calls stale_world (snd (snd (ensureSpreadsheetId memo_only_module stale_world)))) \<and>
   fst (ensureSpreadsheetId memo_only_module stale_world) = Inr ''sheet-2'' \<and>
   cachedSpreadsheetId (fst (snd (ensureSpreadsheetId memo_only_module stale_world))) = ''sheet-2'' \<and>
   cache_file (snd (snd (ensureSpreadsheetId memo_only_module stale_world))) = Some ''sheet-2'' \<and>
   WriteFile ''sheet-2''
     \<in> set (new_calls stale_world (snd (snd (ensureSpreadsheetId memo_only_module stale_world)))) \<and>
   SpreadsheetsCreate (TAB_NAME stale_module)
     \<notin> set (new_calls stale_world (snd (snd (ensureSpreadsheetId stale_module stale_world)))) \<and>
   fst (ensureSpreadsheetId stale_module stale_world) \<noteq> Inr ''old-sheet'' \<and>
   cachedSpreadsheetId (fst (snd (ensureSpreadsheetId stale_module stale_world))) \<noteq> ''old-sheet'' \<and>
   cache_file (snd (snd (ensureSpreadsheetId stale_module stale_world))) = cache_file stale_world"
proof -
  have inacc: "''old-sheet'' \<noteq> [] \<and> service stale_world ''old-sheet'' = None \<and>
      create_reply stale_world \<noteq> Some ''old-sheet''"
    by (simp add: example_defs)
  have run: "ensureSpreadsheetId memo_only_module stale_world
      = (fst (ensureSpreadsheetId memo_only_module stale_world),
         fst (snd (ensureSpreadsheetId memo_only_module stale_world)),
         snd (snd (ensureSpreadsheetId memo_only_module stale_world)))"
    by simp
  have reached: "SpreadsheetsCreate (TAB_NAME memo_only_module)
     \<in> set (new_calls stale_world (snd (snd (ensureSpreadsheetId memo_only_module stale_world))))"
    by (simp add: run_defs example_defs memo_only_module_def trim_def is_ws_def Let_def)
  have returned: "fst (ensureSpreadsheetId memo_only_module stale_world) = Inr ''sheet-2''"
    by (simp add: run_defs example_defs memo_only_module_def trim_def is_ws_def Let_def)
  from failed_candidate_not_kept [OF run] reached returned
  have created: "cachedSpreadsheetId (fst (snd (ensureSpreadsheetId memo_only_module stale_world)))
        = ''sheet-2'' \<and>
      cache_file (snd (snd (ensureSpreadsheetId memo_only_module stale_world))) = Some ''sheet-2'' \<and>
      WriteFile ''sheet-2''
        \<in> set (new_calls stale_world (snd (snd (ensureSpreadsheetId memo_only_module stale_world))))"
    by blast
  have run': "ensureSpreadsheetId stale_module stale_world
      = (fst (ensureSpreadsheetId stale_module stale_world),
         fst (snd (ensureSpreadsheetId stale_module stale_world)),
         snd (snd (ensureSpreadsheetId stale_module stale_world)))"
    by simp
  have quiet: "SpreadsheetsCreate (TAB_NAME stale_module)
     \<notin> set (new_calls stale_world (snd (snd (ensureSpreadsheetId stale_module stale_world))))"
    by (simp add: run_defs example_defs)
  from failed_candidate_not_kept [OF run'] inacc quiet
  have kept: "fst (ensureSpreadsheetId stale_module stale_world) \<noteq> Inr ''old-sheet'' \<and>
      cachedSpreadsheetId (fst (snd (ensureSpreadsheetId stale_module stale_world))) \<noteq> ''old-sheet'' \<and>
      cache_file (snd (snd (ensureSpreadsheetId stale_module stale_world))) = cache_file stale_world"
    by blast
  from inacc reached returned created quiet kept show ?thesis by blast
qed

text \<open>
  C1 as stated fails: the memoized \<open>old-sheet\<close> fails its check and the configured
  identifier is resolved in its place, yet the cache file names \<open>old-sheet\<close> as before.
\<close>

theorem stale_identifier_stays_on_disk:
  "cachedSpreadsheetId stale_module = ''old-sheet'' \<and>
   cache_file stale_world = Some ''old-sheet'' \<and>
   service stale_world ''old-sheet'' = None \<and>
   new_calls stale_world (snd (snd (ensureSpreadsheetId stale_module stale_world)))
     = [SpreadsheetsGet ''old-sheet'', SpreadsheetsGet ''env-sheet''] \<and>
   fst (ensureSpreadsheetId stale_module stale_world) = Inr ''env-sheet'' \<and>
   cache_file (snd (snd (ensureSpreadsheetId stale_module stale_world))) = Some ''old-sheet''"
  by (simp add: run_defs example_defs)

subsection \<open>The schema provisioner\<close>

lemma has_tab_on_tab:
  "(\<And>t. title (f t) = title t) \<Longrightarrow> has_tab name (on_tab name f ts) = has_tab name ts"
  by (induction ts) (auto simp: has_tab_def)

lemma has_tab_written [simp]:
  "has_tab name (on_tab name (write_first_row r) ts) = has_tab name ts"
  by (rule has_tab_on_tab) (simp add: write_first_row_def)

lemma has_tab_added [simp]:
  "has_tab name (ts @ [\<lparr>title = name, frozenRowCount = k, rows = rs\<rparr>])"
  by (simp add: has_tab_def)

lemma filter_on_tab:
  "(\<And>t. title (f t) = title t) \<Longrightarrow>
   length (filter (\<lambda>t. title t = n) (on_tab name f ts)) = length (filter (\<lambda>t. title t = n) ts)"
  by (induction ts) auto

lemma count_written [simp]:
  "length (filter (\<lambda>t. title t = n) (on_tab name (write_first_row r) ts))
     = length (filter (\<lambda>t. title t = n) ts)"
  by (rule filter_on_tab) (simp add: write_first_row_def)

lemma has_tab_count: "has_tab name ts \<longleftrightarrow> 0 < length (filter (\<lambda>t. title t = name) ts)"
  by (induction ts) (auto simp: has_tab_def)

text \<open>
  A call adds no tab of the name, or the first one.
\<close>

lemma ensureSheetTab_count:
  "ensureSheetTab m sid w = (r, w') \<Longrightarrow>
   tab_count (TAB_NAME m) sid w' = tab_count (TAB_NAME m) sid w \<or>
   tab_count (TAB_NAME m) sid w = 0 \<and> tab_count (TAB_NAME m) sid w' = 1"
  unfolding ensureSheetTab_def prims tab_count_def
  by (auto split: splits simp: has_tab_count)

text \<open>
  C7. \<open>ensureSheetTab\<close> is idempotent: on a spreadsheet that has the tab it only lists
  the tabs and changes nothing; when a call has returned, the next call in the world
  it left only lists the tabs; and whatever the outcome of two calls in a row, together
  they add the tab at most once (the spreadsheet ends with one tab of the name if it
  had none, and with as many as before otherwise).
\<close>

theorem ensureSheetTab_idempotent:
  "(\<forall>tabs. service w sid = Some tabs \<and> has_tab (TAB_NAME m) tabs \<longrightarrow>
      ensureSheetTab m sid w = (Inr (), called (SpreadsheetsGet sid) w)) \<and>
   (\<forall>w1. ensureSheetTab m sid w = (Inr (), w1) \<longrightarrow>
      ensureSheetTab m sid w1 = (Inr (), called (SpreadsheetsGet sid) w1)) \<and>
   (\<forall>r1 w1 r2 w2.
      ensureSheetTab m sid w = (r1, w1) \<and> ensureSheetTab m sid w1 = (r2, w2) \<longrightarrow>
      tab_count (TAB_NAME m) sid w2 \<le> max 1 (tab_count (TAB_NAME m) sid w))"
proof -
  have noop: "ensureSheetTab m sid w = (Inr (), called (SpreadsheetsGet sid) w)"
    if "service w sid = Some tabs" and "has_tab (TAB_NAME m) tabs" for tabs
    using that unfolding ensureSheetTab_def prims by (auto split: splits)
  have again: "ensureSheetTab m sid w1 = (Inr (), called (SpreadsheetsGet sid) w1)"
    if "ensureSheetTab m sid w = (Inr (), w1)" for w1
    using that unfolding ensureSheetTab_def prims by (auto split: splits)
  have once: "tab_count (TAB_NAME m) sid w2 \<le> max 1 (tab_count (TAB_NAME m) sid w)"
    if "ensureSheetTab m sid w = (r1, w1)" and "ensureSheetTab m sid w1 = (r2, w2)"
    for r1 w1 r2 w2
    using ensureSheetTab_count [OF that(1)] ensureSheetTab_count [OF that(2)] by auto
  from noop again once show ?thesis by blast
qed

theorem ensureSheetTab_idempotent_witness:
  "fst (ensureSheetTab example_module ''sheet-1'' bare_world) = Inr () \<and>
   ensureSheetTab example_module ''sheet-1''
       (snd (ensureSheetTab example_module ''sheet-1'' bare_world))
     = (Inr (), called (SpreadsheetsGet ''sheet-1'')
                  (snd (ensureSheetTab example_module ''sheet-1'' bare_world)))"
proof -
  have run: "fst (ensureSheetTab example_module ''sheet-1'' bare_world) = Inr ()"
    by (simp add: run_defs)
  then have "ensureSheetTab example_module ''sheet-1'' bare_world
      = (Inr (), snd (ensureSheetTab example_module ''sheet-1'' bare_world))"
    by (metis prod.collapse)
  with ensureSheetTab_idempotent [of bare_world "''sheet-1''" example_module] run
  show ?thesis by blast
qed

subsection \<open>The feedback endpoint\<close>

text \<open>
  C10. A request whose body does not parse as JSON is handled as the empty object: it
  is answered with status 400 and the \<open>feedbackType\<close> validation message, and neither
  the module nor the world changes, so no call leaves the process.
\<close>

theorem unparseable_body_rejected:
  "JSON_parse rt (raw_body req) = None \<Longrightarrow>
   POST rt req m w = (\<lparr> status = 400, body = Failure invalid_feedbackType \<rparr>, m, w)"
  by (simp add: POST_def req_json_def read_fields_def coerce_def then_do_def trim_def)

theorem unparseable_body_rejected_witness:
  "JSON_parse example_runtime (raw_body \<lparr> raw_body = ''not json'', now = 5 \<rparr>) = None \<and>
   POST example_runtime \<lparr> raw_body = ''not json'', now = 5 \<rparr> example_module fresh_world
     = (\<lparr> status = 400, body = Failure invalid_feedbackType \<rparr>, example_module, fresh_world)"
proof -
  have h: "JSON_parse example_runtime (raw_body \<lparr> raw_body = ''not json'', now = 5 \<rparr>) = None"
    by (simp add: example_runtime_def)
  show ?thesis using h unparseable_body_rejected [OF h] by simp
qed

lemma feedbackType_of:
  "read_fields payload = Inr f \<Longrightarrow>
   \<exists>s. coerce payload ''feedbackType'' = Inr s \<and> feedbackType f = trim s"
  unfolding read_fields_def then_do_def
  by (auto split: sum.splits)


lemma coerce_absent:
  "get_prop payload name = Inr None \<Longrightarrow> coerce payload name = Inr []"
  by (simp add: coerce_def then_do_def)

text \<open>
  C3, as the code has it. When the fields of a submission coerce to strings and its
  \<open>feedbackType\<close>, coerced to a string and trimmed, is not \<open>positive\<close> or \<open>negative\<close>
  (empty when the field is absent), the answer is the 400 validation failure, and
  neither the module nor the world changes: no call, no side effect.
\<close>

theorem invalid_feedbackType_rejected:
  assumes "read_fields (req_json rt req) = Inr f"
    and "feedbackType f \<notin> {''positive'', ''negative''}"
  shows "POST rt req m w = (\<lparr> status = 400, body = Failure invalid_feedbackType \<rparr>, m, w)"
  using assms by (simp add: POST_def)

theorem invalid_feedbackType_rejected_witness:
  "feedbackType (projr (read_fields (req_json example_runtime maybe_request))) = ''maybe'' \<and>
   ''maybe'' \<notin> {''positive'', ''negative''} \<and>
   POST example_runtime maybe_request example_module fresh_world
     = (\<lparr> status = 400, body = Failure invalid_feedbackType \<rparr>, example_module, fresh_world)"
proof -
  have f: "read_fields (req_json example_runtime maybe_request)
      = Inr \<lparr> feedbackType = ''maybe'', userComment = [], lastQuestion = [],
              lastResponse = [], sessionId = [], typeLabel = [], providedTimestamp = [],
              fullConversation = [] \<rparr>"
    by (simp add: post_defs example_defs)
  from invalid_feedbackType_rejected [OF f] f show ?thesis by simp
qed

text \<open>
  C3 as stated fails: the \<open>feedbackType\<close> with a leading space is not one of the two
  strings, and its submission is trimmed, accepted and stored.
\<close>

theorem trimmed_feedbackType_accepted:
  "JSON_parse example_runtime (raw_body spaced_request)
     = Some (JObj [(''feedbackType'', JStr '' positive'')]) \<and>
   '' positive'' \<noteq> ''positive'' \<and> '' positive'' \<noteq> ''negative'' \<and>
   status (fst (POST example_runtime spaced_request example_module fresh_world)) = 200 \<and>
   new_calls fresh_world (snd (snd (POST example_runtime spaced_request example_module fresh_world)))
     = [ReadFile, SpreadsheetsCreate ''Feedback'', WriteFile ''sheet-1'',
        ValuesUpdate ''sheet-1'' ''Feedback'' HEADER, SpreadsheetsGet ''sheet-1'',
        ValuesAppend ''sheet-1'' ''Feedback''
          [''2026-11-02T00:00:00.000Z'', ''positive'', [], [], [], ''[]'', [], []]]"
  by (simp add: post_defs run_defs example_defs)

text \<open>
  A body that parses to \<^verbatim>\<open>null\<close> is another matter: reading its first field throws, and
  the answer is 500, still without any call.
\<close>

lemma null_body_fails:
  "POST example_runtime \<lparr> raw_body = ''null'', now = 1 \<rparr> example_module fresh_world
     = (\<lparr> status = 500,
          body = Failure (''Cannot read properties of null (reading ''
                          @ quoted ''feedbackType'' @ '')'') \<rparr>,
        example_module, fresh_world)"
  by (simp add: post_defs)

subsection \<open>Missing credentials\<close>

lemma load_unconfigured:
  "credentials_missing rt penv \<Longrightarrow>
   \<not> truthy (credentials (load_module rt penv)) \<and>
   \<not> sheetsClientPromise (load_module rt penv) \<and>
   unconfigured_warning \<in> set (console (load_module rt penv)) \<and>
   set (console (load_module rt penv)) \<subseteq> {parse_warning, unconfigured_warning}"
  unfolding credentials_missing_def load_module_def parse_credentials_def
  by (auto split: option.splits if_splits simp: Let_def)

lemma POST_unconfigured:
  "\<not> truthy (credentials m) \<Longrightarrow> \<not> sheetsClientPromise m \<Longrightarrow> snd (POST rt req m w) = (m, w)"
  unfolding POST_def POST_append_def getSheetsClient_def
  by (simp split: sum.splits)

lemma serve_unconfigured:
  "\<not> truthy (credentials m) \<Longrightarrow> \<not> sheetsClientPromise m \<Longrightarrow> serve rt reqs m w = (m, w)"
proof (induction reqs)
  case Nil
  then show ?case by simp
next
  case (Cons req reqs)
  from POST_unconfigured [OF Cons.prems, of rt req w]
  obtain resp where "POST rt req m w = (resp, m, w)"
    by (cases "POST rt req m w") auto
  with Cons show ?case by simp
qed

lemma POST_store_unconfigured:
  "\<not> truthy (credentials m) \<Longrightarrow> \<not> sheetsClientPromise m \<Longrightarrow> reaches_store rt req \<Longrightarrow>
   POST rt req m w = (\<lparr> status = 500, body = Failure missing_credentials \<rparr>, m, w)"
  unfolding POST_def POST_append_def getSheetsClient_def reaches_store_def failed_def missing_credentials_def
  by (auto split: sum.splits)

text \<open>
  C8. With the credentials absent or malformed, loading the module only prints
  warnings, the one about missing credentials among them; whatever requests are
  served afterwards, the module and the world stay as they are, so no call leaves the
  process; and every submission that gets as far as using the store is answered with
  status 500 and the message that names the missing credentials.
\<close>

theorem missing_credentials_reported:
  assumes "credentials_missing rt penv"
  shows "unconfigured_warning \<in> set (console (load_module rt penv)) \<and>
         set (console (load_module rt penv)) \<subseteq> {parse_warning, unconfigured_warning} \<and>
         serve rt reqs (load_module rt penv) w = (load_module rt penv, w) \<and>
         (reaches_store rt req \<longrightarrow>
            POST rt req (load_module rt penv) w
              = (\<lparr> status = 500, body = Failure missing_credentials \<rparr>, load_module rt penv, w))"
  using load_unconfigured [OF assms] serve_unconfigured POST_store_unconfigured
  by blast

theorem missing_credentials_reported_witness:
  "credentials_missing example_runtime no_credentials_env \<and>
   reaches_store example_runtime \<lparr> raw_body = feedback_body, now = 0 \<rparr> \<and>
   console (load_module example_runtime no_credentials_env) = [parse_warning, unconfigured_warning] \<and>
   fst (POST example_runtime \<lparr> raw_body = feedback_body, now = 0 \<rparr>
         (load_module example_runtime no_credentials_env) fresh_world)
     = \<lparr> status = 500, body = Failure missing_credentials \<rparr>"
proof -
  have missing: "credentials_missing example_runtime no_credentials_env"
    by (simp add: credentials_missing_def no_credentials_env_def example_runtime_def)
  have reaches: "reaches_store example_runtime \<lparr> raw_body = feedback_body, now = 0 \<rparr>"
    by (simp add: reaches_store_def post_defs)
  have log: "console (load_module example_runtime no_credentials_env)
      = [parse_warning, unconfigured_warning]"
    by (simp add: load_module_def parse_credentials_def no_credentials_env_def
        example_runtime_def)
  from missing_credentials_reported [OF missing, of "[]" fresh_world
      "\<lparr> raw_body = feedback_body, now = 0 \<rparr>"] missing reaches log
  show ?thesis by simp
qed

subsection \<open>The calls of a request\<close>

lemma create_trace:
  "ensureSpreadsheetId_create m w = (r, m', w') \<Longrightarrow>
   \<exists>cs. trace w' = trace w @ cs \<and> (\<forall>c \<in> set cs. \<not> is_append c)"
  unfolding ensureSpreadsheetId_create_def prims
  by (auto split: splits simp: Let_def)

lemma create_TAB_NAME:
  "ensureSpreadsheetId_create m w = (r, m', w') \<Longrightarrow> TAB_NAME m' = TAB_NAME m"
  by (drule create_effects) auto

lemma ensureSpreadsheetId_trace:
  assumes "ensureSpreadsheetId m w = (r, m', w')"
  shows "\<exists>cs. trace w' = trace w @ cs \<and> (\<forall>c \<in> set cs. \<not> is_append c)"
proof (cases "accessible w (cachedSpreadsheetId m) \<or> accessible w (ENV_SPREADSHEET_ID m)
                \<or> accessible w (file_id w)")
  case True
  with assms show ?thesis
    by (auto simp: ensureSpreadsheetId_tiers probe_def split: if_splits)
next
  case False
  let ?pre = "probe (cachedSpreadsheetId m) @ probe (ENV_SPREADSHEET_ID m)
                @ ReadFile # probe (file_id w)"
  from False assms
  have "ensureSpreadsheetId_create (m\<lparr>cachedSpreadsheetId := []\<rparr>) (seen ?pre w) = (r, m', w')"
    by (simp add: ensureSpreadsheetId_tiers)
  from create_trace [OF this] obtain cs
    where "trace w' = trace w @ ?pre @ cs" and "\<forall>c \<in> set cs. \<not> is_append c"
    by auto
  then show ?thesis
    by (intro exI [of _ "?pre @ cs"]) (auto simp: probe_def)
qed

lemma ensureSpreadsheetId_TAB_NAME:
  assumes "ensureSpreadsheetId m w = (r, m', w')"
  shows "TAB_NAME m' = TAB_NAME m"
proof (cases "accessible w (cachedSpreadsheetId m) \<or> accessible w (ENV_SPREADSHEET_ID m)
                \<or> accessible w (file_id w)")
  case True
  with assms show ?thesis
    by (auto simp: ensureSpreadsheetId_tiers split: if_splits)
next
  case False
  with assms obtain m0 w0 where "ensureSpreadsheetId_create m0 w0 = (r, m', w')"
    and "TAB_NAME m0 = TAB_NAME m"
    by (auto simp: ensureSpreadsheetId_tiers)
  then show ?thesis by (auto dest: create_TAB_NAME)
qed

lemma ensureSheetTab_trace:
  "ensureSheetTab m sid w = (r, w') \<Longrightarrow>
   \<exists>cs. trace w' = trace w @ cs \<and> (\<forall>c \<in> set cs. \<not> is_append c)"
  unfolding ensureSheetTab_def prims
  by (auto split: splits)

lemma values_append_trace:
  "values_append sid name row w = (r, w') \<Longrightarrow> trace w' = trace w @ [ValuesAppend sid name row]"
  unfolding values_append_def called_def
  by (auto split: splits)

lemma tab_rows_appended:
  "has_tab name tabs \<Longrightarrow>
   tab_rows name (on_tab name (append_row r) tabs) = tab_rows name tabs @ [r]"
  by (induction tabs) (auto simp: has_tab_def append_row_def)

lemma values_append_Inr:
  "values_append sid name row w = (Inr u, w') \<Longrightarrow>
   \<exists>tabs before. service w' sid = Some tabs \<and> tab_rows name tabs = before @ [row]"
  unfolding values_append_def called_def
  by (auto split: splits simp: tab_rows_appended)

text \<open>
  A request makes no append call and is not answered with 200, or its last call is the
  one append call, of the row of its fields.
\<close>

lemma POST_calls:
  assumes "POST rt req m w = (resp, m', w')"
  shows "(\<forall>c \<in> set (new_calls w w'). \<not> is_append c) \<and> status resp \<noteq> 200 \<or>
         (\<exists>f ts sid cs.
            read_fields (req_json rt req) = Inr f \<and>
            feedbackType f \<in> {''positive'', ''negative''} \<and>
            normalize_timestamp rt (now req) (providedTimestamp f) = Inr ts \<and>
            (\<forall>c \<in> set cs. \<not> is_append c) \<and>
            new_calls w w' = cs @ [ValuesAppend sid (TAB_NAME m) (row_of rt ts f)] \<and>
            (status resp = 200 \<longrightarrow>
               (\<exists>tabs before. service w' sid = Some tabs \<and>
                   tab_rows (TAB_NAME m) tabs = before @ [row_of rt ts f])))"
proof (cases "read_fields (req_json rt req)")
  case (Inl e)
  with assms show ?thesis by (auto simp: POST_def POST_append_def new_calls_def failed_def)
next
  case (Inr f)
  note f = this
  show ?thesis
  proof (cases "feedbackType f \<in> {''positive'', ''negative''}")
    case False
    with assms f show ?thesis by (auto simp: POST_def POST_append_def new_calls_def)
  next
    case True
    note valid = this
    show ?thesis
    proof (cases "normalize_timestamp rt (now req) (providedTimestamp f)")
      case (Inl e)
      with assms f valid show ?thesis by (auto simp: POST_def POST_append_def new_calls_def failed_def)
    next
      case (Inr ts)
      note ts = this
      obtain c m1 where client: "getSheetsClient m = (c, m1)" by (cases "getSheetsClient m")
      then have tab1: "TAB_NAME m1 = TAB_NAME m"
        by (auto simp: getSheetsClient_def split: if_splits)
      show ?thesis
      proof (cases c)
        case (Inl e)
        with assms f valid ts client show ?thesis
          by (auto simp: POST_def POST_append_def new_calls_def failed_def)
      next
        case (Inr u)
        note c = this
        obtain r2 m2 w2 where res: "ensureSpreadsheetId m1 w = (r2, m2, w2)"
          by (cases "ensureSpreadsheetId m1 w") auto
        from ensureSpreadsheetId_trace [OF res] obtain cs2
          where t2: "trace w2 = trace w @ cs2" and a2: "\<forall>c \<in> set cs2. \<not> is_append c"
          by auto
        from ensureSpreadsheetId_TAB_NAME [OF res] tab1 have tab2: "TAB_NAME m2 = TAB_NAME m"
          by simp
        show ?thesis
        proof (cases r2)
          case (Inl e)
          with assms f valid ts client c res t2 a2 show ?thesis
            by (auto simp: POST_def POST_append_def new_calls_def failed_def)
        next
          case (Inr sid)
          note sid = this
          obtain r3 w3 where tab: "ensureSheetTab m2 sid w2 = (r3, w3)"
            by (cases "ensureSheetTab m2 sid w2") auto
          from ensureSheetTab_trace [OF tab] obtain cs3
            where t3: "trace w3 = trace w2 @ cs3" and a3: "\<forall>c \<in> set cs3. \<not> is_append c"
            by auto
          show ?thesis
          proof (cases r3)
            case (Inl e)
            with assms f valid ts client c res sid tab t2 a2 t3 a3 show ?thesis
              by (auto simp: POST_def POST_append_def new_calls_def failed_def)
          next
            case (Inr u3)
            obtain r4 w4 where app:
              "values_append sid (TAB_NAME m) (row_of rt ts f) w3 = (r4, w4)"
              by (cases "values_append sid (TAB_NAME m) (row_of rt ts f) w3") auto
            from values_append_trace [OF app]
            have t4: "trace w4 = trace w @ (cs2 @ cs3) @ [ValuesAppend sid (TAB_NAME m) (row_of rt ts f)]"
              using t2 t3 by simp
            have w': "w' = w4" and resp: "status resp = 200 \<longrightarrow> (\<exists>u. r4 = Inr u)"
              using assms f valid ts client c res sid tab Inr app tab2
              by (auto simp: POST_def POST_append_def failed_def split: sum.splits)
            have "status resp = 200 \<longrightarrow>
               (\<exists>tabs before. service w' sid = Some tabs \<and>
                   tab_rows (TAB_NAME m) tabs = before @ [row_of rt ts f])"
              using resp app w' by (auto dest: values_append_Inr)
            moreover have "new_calls w w' = (cs2 @ cs3) @ [ValuesAppend sid (TAB_NAME m) (row_of rt ts f)]"
              using t4 w' by (simp add: new_calls_def)
            moreover have "\<forall>c \<in> set (cs2 @ cs3). \<not> is_append c"
              using a2 a3 by auto
            ultimately show ?thesis using f valid ts by blast
          qed
        qed
      qed
    qed
  qed
qed

text \<open>
  The end-to-end scenario: nothing configured, nothing cached, one spreadsheet created,
  its header written, one row appended.
\<close>

lemma example_run:
  "POST example_runtime example_request example_module fresh_world =
     (\<lparr> status = 200, body = Success \<rparr>,
      example_module\<lparr> cachedSpreadsheetId := ''sheet-1'', sheetsClientPromise := True \<rparr>,
      \<lparr> service = [''sheet-1'' \<mapsto> [\<lparr>title = ''Feedback'', frozenRowCount = 1,
                                    rows = [HEADER, example_row]\<rparr>]],
        cache_file = Some ''sheet-1'', create_reply = Some ''sheet-1'',
        broken = (\<lambda>c. None),
        trace = [ReadFile, SpreadsheetsCreate ''Feedback'', WriteFile ''sheet-1'',
                 ValuesUpdate ''sheet-1'' ''Feedback'' HEADER, SpreadsheetsGet ''sheet-1'',
                 ValuesAppend ''sheet-1'' ''Feedback'' example_row] \<rparr>)"
  by (simp add: post_defs run_defs example_defs)

lemma unparseable_timestamp_rejected:
  assumes "read_fields (req_json rt req) = Inr f"
    and "feedbackType f \<in> {''positive'', ''negative''}"
    and "providedTimestamp f \<noteq> []" and "Date_parse rt (providedTimestamp f) = None"
  shows "POST rt req m w = (\<lparr> status = 500, body = Failure ''Invalid time value'' \<rparr>, m, w)"
  using assms by (auto simp: POST_def POST_append_def normalize_timestamp_def failed_def)







text \<open>
  C6. A submission answered with 200 made exactly one append call, its last call: one
  row of eight columns, which are the timestamp, \<open>feedbackType\<close>, \<open>userComment\<close>,
  \<open>lastQuestion\<close>, \<open>lastResponse\<close>, the serialized \<open>fullConversation\<close>, \<open>sessionId\<close>
  and the type label, each under its column of the header; and that row is the last
  row of the tab afterwards.
\<close>

theorem success_appends_one_row:
  assumes "POST rt req m w = (resp, m', w')" and "status resp = 200"
  shows "\<exists>f ts sid.
           read_fields (req_json rt req) = Inr f \<and>
           normalize_timestamp rt (now req) (providedTimestamp f) = Inr ts \<and>
           filter is_append (new_calls w w')
             = [ValuesAppend sid (TAB_NAME m)
                  [ts, feedbackType f, userComment f, lastQuestion f, lastResponse f,
                   JSON_stringify rt (JArr (fullConversation f)), sessionId f, typeLabel f]] \<and>
           last (new_calls w w')
             = ValuesAppend sid (TAB_NAME m) (map (column_value rt ts f) HEADER) \<and>
           length (map (column_value rt ts f) HEADER) = 8 \<and>
           (\<exists>tabs before. service w' sid = Some tabs \<and>
              tab_rows (TAB_NAME m) tabs = before @ [map (column_value rt ts f) HEADER])"
proof -
  have cols: "map (column_value rt ts f) HEADER = row_of rt ts f" for ts f
    by (simp add: HEADER_def column_value_def row_of_def)
  from POST_calls [OF assms(1)] assms(2) obtain f ts sid cs
    where "read_fields (req_json rt req) = Inr f"
      and "normalize_timestamp rt (now req) (providedTimestamp f) = Inr ts"
      and "\<forall>c \<in> set cs. \<not> is_append c"
      and "new_calls w w' = cs @ [ValuesAppend sid (TAB_NAME m) (row_of rt ts f)]"
      and "\<exists>tabs before. service w' sid = Some tabs \<and>
                   tab_rows (TAB_NAME m) tabs = before @ [row_of rt ts f]"
    by auto
  then show ?thesis
    by (intro exI [of _ f] exI [of _ ts] exI [of _ sid])
       (simp add: cols, simp add: row_of_def)
qed

theorem success_appends_one_row_witness:
  "status (fst (POST example_runtime example_request example_module fresh_world)) = 200 \<and>
   filter is_append (new_calls fresh_world
       (snd (snd (POST example_runtime example_request example_module fresh_world))))
     = [ValuesAppend ''sheet-1'' ''Feedback'' example_row] \<and>
   (\<exists>f ts sid.
      read_fields (req_json example_runtime example_request) = Inr f \<and>
      normalize_timestamp example_runtime (now example_request) (providedTimestamp f) = Inr ts \<and>
      filter is_append (new_calls fresh_world
          (snd (snd (POST example_runtime example_request example_module fresh_world))))
        = [ValuesAppend sid (TAB_NAME example_module)
             [ts, feedbackType f, userComment f, lastQuestion f, lastResponse f,
              JSON_stringify example_runtime (JArr (fullConversation f)), sessionId f,
              typeLabel f]] \<and>
      last (new_calls fresh_world
          (snd (snd (POST example_runtime example_request example_module fresh_world))))
        = ValuesAppend sid (TAB_NAME example_module)
            (map (column_value example_runtime ts f) HEADER) \<and>
      length (map (column_value example_runtime ts f) HEADER) = 8 \<and>
      (\<exists>tabs before.
         service (snd (snd (POST example_runtime example_request example_module fresh_world)))
           sid = Some tabs \<and>
         tab_rows (TAB_NAME example_module) tabs
           = before @ [map (column_value example_runtime ts f) HEADER]))"
proof -
  have run: "POST example_runtime example_request example_module fresh_world
      = (fst (POST example_runtime example_request example_module fresh_world),
         fst (snd (POST example_runtime example_request example_module fresh_world)),
         snd (snd (POST example_runtime example_request example_module fresh_world)))"
    by simp
  have ok: "status (fst (POST example_runtime example_request example_module fresh_world)) = 200"
    by (simp add: example_run)
  have calls: "filter is_append (new_calls fresh_world
       (snd (snd (POST example_runtime example_request example_module fresh_world))))
     = [ValuesAppend ''sheet-1'' ''Feedback'' example_row]"
    unfolding example_run new_calls_def by (simp add: fresh_world_def)
  note appended = success_appends_one_row [OF run ok]
  show ?thesis
    by (intro conjI) (fact ok, fact calls, fact appended)
qed

end
